theory Spec2Isabelle
  imports Complex_Main "HOL-Library.Sublist" "HOL-Library.Word" "HOL-Library.Log_Nat"
begin

section \<open>XML pre-processing: escaping bare ampersands\<close>

text \<open>
  The text of an XML file is a sequence of Unicode code points.  An ASCII literal is
  written \<open>ascii ''...''\<close>.
\<close>

type_synonym ustring = "nat list"

abbreviation ascii :: "string \<Rightarrow> ustring" where
  "ascii s \<equiv> map of_char s"

text \<open>
  The class \<^verbatim>\<open>\d\<close> of a pattern over \<^verbatim>\<open>str\<close> is every Unicode decimal digit (category
  Nd), not only \<^verbatim>\<open>0\<close> to \<^verbatim>\<open>9\<close>: the ranges below are those of Unicode 14.0, first and
  last code point of each.  The class \<^verbatim>\<open>[0-9A-Fa-f]\<close> is written out in the pattern and
  is ASCII.
\<close>

definition decimal_ranges :: "(nat \<times> nat) list" where
  "decimal_ranges =
     [(48, 57), (1632, 1641), (1776, 1785), (1984, 1993), (2406, 2415), (2534, 2543),
      (2662, 2671), (2790, 2799), (2918, 2927), (3046, 3055), (3174, 3183), (3302, 3311),
      (3430, 3439), (3558, 3567), (3664, 3673), (3792, 3801), (3872, 3881), (4160, 4169),
      (4240, 4249), (6112, 6121), (6160, 6169), (6470, 6479), (6608, 6617), (6784, 6793),
      (6800, 6809), (6992, 7001), (7088, 7097), (7232, 7241), (7248, 7257), (42528, 42537),
      (43216, 43225), (43264, 43273), (43472, 43481), (43504, 43513), (43600, 43609),
      (44016, 44025), (65296, 65305), (66720, 66729), (68912, 68921), (69734, 69743),
      (69872, 69881), (69942, 69951), (70096, 70105), (70384, 70393), (70736, 70745),
      (70864, 70873), (71248, 71257), (71360, 71369), (71472, 71481), (71904, 71913),
      (72016, 72025), (72784, 72793), (73040, 73049), (73120, 73129), (92768, 92777),
      (92864, 92873), (93008, 93017), (120782, 120831), (123200, 123209), (123632, 123641),
      (125264, 125273), (130032, 130041)]"

definition is_decimal :: "nat \<Rightarrow> bool" where
  "is_decimal c = list_ex (\<lambda>(first, last). first \<le> c \<and> c \<le> last) decimal_ranges"

definition is_hex :: "nat \<Rightarrow> bool" where
  "is_hex c = (c \<in> set (ascii ''0123456789ABCDEFabcdef''))"

text \<open>
  \<open>plus_then cls k s\<close>: the regular expression \<^verbatim>\<open>[cls]+k\<close> matches at the start of
  \<open>s\<close>, the way a backtracking matcher runs it: one character of the class, then either
  more of the same (greedy) or the literal \<open>k\<close>.
\<close>

fun plus_then :: "(nat \<Rightarrow> bool) \<Rightarrow> ustring \<Rightarrow> ustring \<Rightarrow> bool" where
  "plus_then cls k [] = False"
| "plus_then cls k (c # s) = (cls c \<and> (plus_then cls k s \<or> prefix k s))"

text \<open>
  The body of the negative lookahead of \<^verbatim>\<open>_sanitize_ampersands\<close>,
  \<^verbatim>\<open>amp;|lt;|gt;|quot;|apos;|#\d+;|#x[0-9A-Fa-f]+;\<close>, tried on the text after an ampersand,
  with the class that \<^verbatim>\<open>\d\<close> stands for as \<open>dec\<close>.  In the code it is \<open>is_decimal\<close>.
\<close>

definition lookahead_with :: "(nat \<Rightarrow> bool) \<Rightarrow> ustring \<Rightarrow> bool" where
  "lookahead_with dec s =
     (prefix (ascii ''amp;'') s \<or> prefix (ascii ''lt;'') s \<or> prefix (ascii ''gt;'') s \<or>
      prefix (ascii ''quot;'') s \<or> prefix (ascii ''apos;'') s \<or>
      (case s of c # r \<Rightarrow> c = of_char CHR ''#'' \<and> plus_then dec (ascii '';'') r | [] \<Rightarrow> False) \<or>
      (case s of
         c # d # r \<Rightarrow> c = of_char CHR ''#'' \<and> d = of_char CHR ''x'' \<and> plus_then is_hex (ascii '';'') r
       | _ \<Rightarrow> False))"

definition entity_lookahead :: "ustring \<Rightarrow> bool" where
  "entity_lookahead s = lookahead_with is_decimal s"

text \<open>
  \<^verbatim>\<open>pattern.sub("&amp;", s)\<close>: the pattern matches a single \<^verbatim>\<open>&\<close> whose lookahead fails, so
  the substitution walks the string once and rewrites those characters; what it inserts is
  not scanned again.
\<close>

fun sanitize_ampersands :: "ustring \<Rightarrow> ustring" where
  "sanitize_ampersands [] = []"
| "sanitize_ampersands (c # s) =
     (if c = of_char CHR ''&'' \<and> \<not> entity_lookahead s
      then ascii ''&amp;'' @ sanitize_ampersands s
      else c # sanitize_ampersands s)"

text \<open>
  The specification's wording of a recognized entity reference, as the text that follows
  the ampersand: one of the five named entities, a decimal reference or a hexadecimal
  one.  The digits of a decimal reference are the parameter \<open>dec\<close>; in XML they are
  \<^verbatim>\<open>0\<close> to \<^verbatim>\<open>9\<close>.
\<close>

definition xml_digit :: "nat \<Rightarrow> bool" where
  "xml_digit c = (c \<in> set (ascii ''0123456789''))"

definition entity_body :: "(nat \<Rightarrow> bool) \<Rightarrow> ustring \<Rightarrow> bool" where
  "entity_body dec p =
     (p \<in> set [ascii ''amp;'', ascii ''lt;'', ascii ''gt;'', ascii ''quot;'', ascii ''apos;''] \<or>
      (\<exists>ds. ds \<noteq> [] \<and> list_all dec ds \<and> p = ascii ''#'' @ ds @ ascii '';'') \<or>
      (\<exists>hs. hs \<noteq> [] \<and> list_all is_hex hs \<and> p = ascii ''#x'' @ hs @ ascii '';''))"

definition starts_entity :: "(nat \<Rightarrow> bool) \<Rightarrow> ustring \<Rightarrow> bool" where
  "starts_entity dec s = (\<exists>p. entity_body dec p \<and> prefix p s)"

definition escape_at :: "(nat \<Rightarrow> bool) \<Rightarrow> ustring \<Rightarrow> nat \<Rightarrow> ustring" where
  "escape_at dec s i =
     (if s ! i = of_char CHR ''&'' \<and> \<not> starts_entity dec (drop (Suc i) s) then ascii ''&amp;''
      else [s ! i])"

section \<open>Python values\<close>

text \<open>
  A float is modelled by the exact rational it denotes, or one of the three special
  values; rounding to binary64 is not modelled.  The exceptions are the ones the importer
  can meet.
\<close>

datatype pyfloat = Fin rat | PosInf | NegInf | NaN

datatype exn =
    ValueError | TypeError | KeyError | OverflowError
  | IntegrityError | MultipleObjectsReturned | DatabaseError | ValidationError
  | InvalidOperation
  | FileNotFoundError | OSError | BadGzipFile | EOFError | ZlibError | ParseError

text \<open>
  The values a cell of a row can hold: a loosely typed scalar, or a list.  The strings of
  cells are modelled as \<^typ>\<open>string\<close>, one \<^typ>\<open>char\<close> per code point, for the code points
  below 256; in that range the decimal digits are \<^verbatim>\<open>0\<close> to \<^verbatim>\<open>9\<close>.
\<close>

datatype pyval =
    PNone | PBool bool | PInt int | PFloat pyfloat | PStr string | PList "pyval list"

definition is_digit :: "char \<Rightarrow> bool" where
  "is_digit c = (c \<in> set ''0123456789'')"

subsection \<open>String methods\<close>

text \<open>
  \<^verbatim>\<open>str.strip()\<close> removes the characters for which \<^verbatim>\<open>str.isspace\<close> holds: below 256
  these are the code points 9 to 13, 28 to 32, 133 and 160.
\<close>

definition is_space :: "char \<Rightarrow> bool" where
  "is_space c = ((of_char c :: nat) \<in> set [9, 10, 11, 12, 13, 28, 29, 30, 31, 32, 133, 160])"

definition strip :: "string \<Rightarrow> string" where
  "strip s = rev (dropWhile is_space (rev (dropWhile is_space s)))"

definition startswith :: "string \<Rightarrow> string \<Rightarrow> bool" where
  "startswith s p = prefix p s"

definition endswith :: "string \<Rightarrow> string \<Rightarrow> bool" where
  "endswith s p = prefix (rev p) (rev s)"

text \<open>\<^verbatim>\<open>s.split(c)\<close> for a one-character separator: never empty, one more piece than separators.\<close>

fun split :: "char \<Rightarrow> string \<Rightarrow> string list" where
  "split c [] = [[]]"
| "split c (x # s) =
     (if x = c then [] # split c s
      else (case split c s of p # ps \<Rightarrow> (x # p) # ps | [] \<Rightarrow> [[x]]))"

subsection \<open>The built-in \<^verbatim>\<open>float\<close>\<close>

text \<open>
  \<^verbatim>\<open>float(str)\<close> in three stages, as the interpreter runs them.  First every underscore
  must stand between two digits, and is dropped (\<open>prev\<close> is the character before).
\<close>

fun drop_underscores :: "char \<Rightarrow> string \<Rightarrow> string option" where
  "drop_underscores prev [] = (if prev = CHR ''_'' then None else Some [])"
| "drop_underscores prev (c # s) =
     (if c = CHR ''_'' then (if is_digit prev then drop_underscores c s else None)
      else if prev = CHR ''_'' \<and> \<not> is_digit c then None
      else map_option ((#) c) (drop_underscores c s))"

text \<open>
  Second, white space is removed at both ends: the six ASCII white-space characters, and
  the two non-ASCII ones below 256, which the interpreter first turns into blanks.
\<close>

definition is_float_space :: "char \<Rightarrow> bool" where
  "is_float_space c = ((of_char c :: nat) \<in> set [9, 10, 11, 12, 13, 32, 133, 160])"

definition float_strip :: "string \<Rightarrow> string" where
  "float_strip s = rev (dropWhile is_float_space (rev (dropWhile is_float_space s)))"

text \<open>
  Third, the number: an optional sign, then \<^verbatim>\<open>inf\<close>, \<^verbatim>\<open>infinity\<close> or \<^verbatim>\<open>nan\<close> in any
  case, or decimal digits with an optional point and an optional exponent, at least one
  digit in the mantissa and in the exponent, and nothing after.
\<close>

definition upper_of :: "char \<Rightarrow> char" where
  "upper_of c =
     (case map_of (zip ''abcdefghijklmnopqrstuvwxyz'' ''ABCDEFGHIJKLMNOPQRSTUVWXYZ'') c of
        Some u \<Rightarrow> u | None \<Rightarrow> c)"

fun ci_match :: "string \<Rightarrow> string \<Rightarrow> bool" where
  "ci_match [] [] = True"
| "ci_match (p # ps) (c # cs) = ((c = p \<or> c = upper_of p) \<and> ci_match ps cs)"
| "ci_match _ _ = False"

definition digits_value :: "string \<Rightarrow> nat" where
  "digits_value ds = foldl (\<lambda>a c. 10 * a + (of_char c - 48)) 0 ds"

definition split_sign :: "string \<Rightarrow> bool \<times> string" where
  "split_sign s =
     (case s of
        c # r \<Rightarrow> if c = CHR ''-'' then (True, r) else if c = CHR ''+'' then (False, r)
                 else (False, s)
      | [] \<Rightarrow> (False, s))"

text \<open>The exponent part: absent, or \<^verbatim>\<open>e\<close> or \<^verbatim>\<open>E\<close>, an optional sign and digits to the end.\<close>

definition parse_exponent :: "string \<Rightarrow> int option" where
  "parse_exponent s =
     (case s of
        [] \<Rightarrow> Some 0
      | c # r \<Rightarrow>
          if c = CHR ''e'' \<or> c = CHR ''E'' then
            (let (neg, ds) = split_sign r
             in if ds \<noteq> [] \<and> list_all is_digit ds
                then Some (if neg then - int (digits_value ds) else int (digits_value ds))
                else None)
          else None)"

text \<open>
  A finite value whose magnitude rounds beyond the largest binary64 number becomes an
  infinity; the bound is \<open>2\<^sup>1\<^sup>0\<^sup>2\<^sup>4 - 2\<^sup>9\<^sup>7\<^sup>0\<close>.
\<close>

definition float_max_bound :: rat where
  "float_max_bound = 2 ^ 1024 - 2 ^ 970"

definition round_overflow :: "rat \<Rightarrow> pyfloat" where
  "round_overflow v =
     (if float_max_bound \<le> v then PosInf else if v \<le> - float_max_bound then NegInf else Fin v)"

definition parse_decimal :: "string \<Rightarrow> rat option" where
  "parse_decimal s =
     (let ip = takeWhile is_digit s; r1 = dropWhile is_digit s;
          (fp, r2) = (case r1 of
                        c # t \<Rightarrow> if c = CHR ''.'' then (takeWhile is_digit t, dropWhile is_digit t)
                                 else ([], r1)
                      | [] \<Rightarrow> ([], r1))
      in if ip = [] \<and> fp = [] then None
         else (case parse_exponent r2 of
                 None \<Rightarrow> None
               | Some e \<Rightarrow>
                   let m = of_nat (digits_value (ip @ fp)) / 10 ^ length fp
                   in Some (if 0 \<le> e then m * 10 ^ nat e else m / 10 ^ nat (- e))))"

definition parse_float_body :: "string \<Rightarrow> pyfloat option" where
  "parse_float_body s =
     (let (neg, r) = split_sign s
      in if ci_match ''inf'' r \<or> ci_match ''infinity'' r then Some (if neg then NegInf else PosInf)
         else if ci_match ''nan'' r then Some NaN
         else map_option (\<lambda>v. round_overflow (if neg then - v else v)) (parse_decimal r))"

definition float_of_str :: "string \<Rightarrow> pyfloat option" where
  "float_of_str s =
     (case drop_underscores (CHR 0x00) s of
        None \<Rightarrow> None
      | Some t \<Rightarrow> parse_float_body (float_strip t))"

text \<open>
  \<^verbatim>\<open>float(x)\<close> on a cell: a string that does not parse raises \<open>ValueError\<close>, \<^verbatim>\<open>None\<close>
  and a list raise \<open>TypeError\<close>, an integer too large for a float raises
  \<open>OverflowError\<close>.
\<close>

fun py_float :: "pyval \<Rightarrow> exn + pyfloat" where
  "py_float PNone = Inl TypeError"
| "py_float (PBool b) = Inr (Fin (if b then 1 else 0))"
| "py_float (PInt n) =
     (if float_max_bound \<le> \<bar>of_int n\<bar> then Inl OverflowError else Inr (Fin (of_int n)))"
| "py_float (PFloat f) = Inr f"
| "py_float (PStr s) = (case float_of_str s of None \<Rightarrow> Inl ValueError | Some f \<Rightarrow> Inr f)"
| "py_float (PList xs) = Inl TypeError"

section \<open>The ratings parser\<close>

text \<open>
  The loop of \<^verbatim>\<open>parse_ratings\<close> over a list: \<^verbatim>\<open>None\<close> and NaN items are skipped, an item
  whose coercion raises \<open>ValueError\<close> or \<open>TypeError\<close> is skipped, any other exception
  leaves the function.
\<close>

fun parse_items :: "pyval list \<Rightarrow> exn + pyfloat list" where
  "parse_items [] = Inr []"
| "parse_items (item # items) =
     (if item = PNone then parse_items items
      else if item = PFloat NaN then parse_items items
      else (case py_float item of
              Inl e \<Rightarrow> if e = ValueError \<or> e = TypeError then parse_items items else Inl e
            | Inr f \<Rightarrow> (case parse_items items of Inl e \<Rightarrow> Inl e | Inr fs \<Rightarrow> Inr (f # fs))))"

text \<open>
  The list comprehension \<^verbatim>\<open>[float(r.strip()) for r in pieces if r.strip()]\<close>: the first
  piece that does not coerce raises, and the pieces before it are lost with it.
\<close>

fun float_pieces :: "string list \<Rightarrow> exn + pyfloat list" where
  "float_pieces [] = Inr []"
| "float_pieces (r # rs) =
     (if strip r \<noteq> [] then
        (case py_float (PStr (strip r)) of
           Inl e \<Rightarrow> Inl e
         | Inr f \<Rightarrow> (case float_pieces rs of Inl e \<Rightarrow> Inl e | Inr fs \<Rightarrow> Inr (f # fs)))
      else float_pieces rs)"

definition unbrace :: "string \<Rightarrow> string" where
  "unbrace ratings_str =
     (if startswith ratings_str ''{'' \<and> endswith ratings_str ''}'' then butlast (tl ratings_str)
      else ratings_str)"

fun parse_ratings :: "pyval \<Rightarrow> exn + pyfloat list" where
  "parse_ratings PNone = Inr []"
| "parse_ratings (PList items) = parse_items items"
| "parse_ratings (PStr ratings_data) =
     (let ratings_str = unbrace (strip ratings_data)
      in if ratings_str = [] then Inr []
         else (case float_pieces (split CHR '','' ratings_str) of
                 Inl e \<Rightarrow> if e = ValueError then Inr [] else Inl e
               | Inr fs \<Rightarrow> Inr fs))"
| "parse_ratings v =
     (case py_float v of
        Inl e \<Rightarrow> if e = ValueError \<or> e = TypeError then Inr [] else Inl e
      | Inr f \<Rightarrow> Inr [f])"

section \<open>The PoI model\<close>

text \<open>
  Float addition and division by a length, on the special values as IEEE arithmetic has
  them; \<^verbatim>\<open>sum\<close> starts from zero and adds from the left.
\<close>

fun float_add :: "pyfloat \<Rightarrow> pyfloat \<Rightarrow> pyfloat" where
  "float_add (Fin a) (Fin b) = round_overflow (a + b)"
| "float_add NaN _ = NaN"
| "float_add _ NaN = NaN"
| "float_add PosInf NegInf = NaN"
| "float_add NegInf PosInf = NaN"
| "float_add PosInf _ = PosInf"
| "float_add _ PosInf = PosInf"
| "float_add NegInf _ = NegInf"
| "float_add _ NegInf = NegInf"

definition py_sum :: "pyfloat list \<Rightarrow> pyfloat" where
  "py_sum xs = foldl float_add (Fin 0) xs"

fun float_div :: "pyfloat \<Rightarrow> nat \<Rightarrow> pyfloat" where
  "float_div (Fin a) n = Fin (a / of_nat n)"
| "float_div x n = x"

text \<open>
  The five fields that a row supplies, with the type of the coordinates as a parameter:
  the \<^verbatim>\<open>defaults\<close> of the upsert hold them as floats, the table holds them as the
  fixed-point decimals of \<^verbatim>\<open>DecimalField(max_digits=10, decimal_places=7)\<close>.  The model
  class \<^verbatim>\<open>PoI\<close> adds the key and the derived average.
\<close>

record 'c poi_fields =
  name :: string
  category :: string
  latitude :: 'c
  longitude :: 'c
  ratings :: "pyfloat list"

record 'c poi_object = "'c poi_fields" +
  poi_id :: int
  avg_rating :: "pyfloat option"

type_synonym defaults = "pyfloat poi_fields"

type_synonym poi = "rat poi_object"

text \<open>
  What a \<^verbatim>\<open>DecimalField\<close> writes for a float: the float is turned into a decimal number
  in a context of \<open>max_digits\<close> significant digits, then quantized to \<open>decimal_places\<close>
  places, both times rounding half to even.  NaN is refused with a \<open>ValidationError\<close>
  when the float is converted; the quantization raises \<open>InvalidOperation\<close> on an
  infinity and on a result of more than \<open>max_digits\<close> digits.  \<open>decimal_exponent x\<close> is
  the exponent \<open>e\<close> of a non-zero \<open>x\<close> for which \<open>x\<close> lies between the \<open>e\<close>-th power of
  ten and the next.
\<close>

definition round_half_even :: "rat \<Rightarrow> int" where
  "round_half_even x =
     (let f = \<lfloor>x\<rfloor>; d = x - of_int f
      in if d < 1 / 2 then f else if 1 / 2 < d then f + 1 else if even f then f else f + 1)"

definition pow10 :: "int \<Rightarrow> rat" where
  "pow10 e = (if 0 \<le> e then 10 ^ nat e else 1 / 10 ^ nat (- e))"

definition decimal_exponent :: "rat \<Rightarrow> int" where
  "decimal_exponent x =
     (let a = \<bar>x\<bar>
      in if 1 \<le> a then int (floorlog 10 (nat \<lfloor>a\<rfloor>)) - 1
         else (let k = int (floorlog 10 (nat \<lfloor>1 / a\<rfloor>))
               in if pow10 (1 - k) \<le> a then 1 - k else - k))"

definition round_significant :: "nat \<Rightarrow> rat \<Rightarrow> rat" where
  "round_significant n x =
     (if x = 0 then 0
      else (let s = pow10 (int n - 1 - decimal_exponent x)
            in of_int (round_half_even (x * s)) / s))"

definition quantize :: "nat \<Rightarrow> rat \<Rightarrow> rat" where
  "quantize places x = of_int (round_half_even (x * 10 ^ places)) / 10 ^ places"

definition decimal_field :: "nat \<Rightarrow> nat \<Rightarrow> pyfloat \<Rightarrow> exn + rat" where
  "decimal_field max_digits decimal_places v =
     (case v of
        NaN \<Rightarrow> Inl ValidationError
      | Fin x \<Rightarrow>
          (let q = quantize decimal_places (round_significant max_digits x)
           in if 10 ^ max_digits \<le> \<bar>q\<bar> * 10 ^ decimal_places then Inl InvalidOperation
              else Inr q)
      | _ \<Rightarrow> Inl InvalidOperation)"

text \<open>
  The values of the defaults as the table takes them: the two coordinates through their
  \<^verbatim>\<open>DecimalField\<close>, the latitude first.  The conversion happens when the object is
  written; \<^verbatim>\<open>save\<close> reads and assigns neither coordinate, so the model converts before it
  assigns.
\<close>

definition prepare :: "defaults \<Rightarrow> exn + rat poi_fields" where
  "prepare d =
     (case decimal_field 10 7 (latitude d) of
        Inl e \<Rightarrow> Inl e
      | Inr lat \<Rightarrow>
          (case decimal_field 10 7 (longitude d) of
             Inl e \<Rightarrow> Inl e
           | Inr lon \<Rightarrow>
               Inr \<lparr>name = name d, category = category d, latitude = lat, longitude = lon,
                    ratings = ratings d\<rparr>))"

text \<open>
  \<^verbatim>\<open>PoI.save\<close>: the average is assigned when \<^verbatim>\<open>self.ratings\<close> is truthy, and the object
  is then written as it stands.  The result is the object that is written.
\<close>

definition save :: "poi \<Rightarrow> poi" where
  "save self =
     (if ratings self \<noteq> []
      then self\<lparr>avg_rating := Some (float_div (py_sum (ratings self)) (length (ratings self)))\<rparr>
      else self)"

text \<open>
  The table of stored objects, in insertion order.  \<^verbatim>\<open>PoI.objects.update_or_create\<close>
  looks the key up: with no match it builds a new object from the key and the defaults
  and saves it; with one match it assigns the defaults to the stored object and saves
  it; with several it raises.

  On the update path the version of the framework matters.  Up to Django 4.1 the save
  writes every column.  From Django 4.2 on it is \<^verbatim>\<open>save(update_fields=...)\<close> with the
  fields of the defaults, so the average that \<^verbatim>\<open>PoI.save\<close> has assigned to the object is
  not written and the column keeps what it held.  The flag \<open>update_fields\<close> is true for
  the second behaviour.

  The storage engine may refuse a write for reasons of its own (a value out of a
  column's range, a constraint): \<open>db\<close> gives that exception, if any, for the key and the
  values written.  The importer ignores the returned pair, so the model returns the
  table.
\<close>

definition new_poi :: "int \<Rightarrow> rat poi_fields \<Rightarrow> poi" where
  "new_poi k d =
     \<lparr>name = name d, category = category d, latitude = latitude d, longitude = longitude d,
      ratings = ratings d, poi_id = k, avg_rating = None\<rparr>"

definition set_defaults :: "poi \<Rightarrow> rat poi_fields \<Rightarrow> poi" where
  "set_defaults obj d =
     obj\<lparr>name := name d, category := category d, latitude := latitude d,
         longitude := longitude d, ratings := ratings d\<rparr>"

definition update_row :: "bool \<Rightarrow> poi \<Rightarrow> rat poi_fields \<Rightarrow> poi" where
  "update_row update_fields p d =
     (let obj = save (set_defaults p d)
      in if update_fields then obj\<lparr>avg_rating := avg_rating p\<rparr> else obj)"

definition update_or_create ::
  "bool \<Rightarrow> (int \<Rightarrow> defaults \<Rightarrow> exn option) \<Rightarrow> poi list \<Rightarrow> int \<Rightarrow> defaults \<Rightarrow> exn + poi list" where
  "update_or_create update_fields db objs k d =
     (case filter (\<lambda>p. poi_id p = k) objs of
        [] \<Rightarrow>
          (case prepare d of
             Inl e \<Rightarrow> Inl e
           | Inr values \<Rightarrow>
               (case db k d of
                  Some e \<Rightarrow> Inl e
                | None \<Rightarrow> Inr (objs @ [save (new_poi k values)])))
      | [p] \<Rightarrow>
          (case prepare d of
             Inl e \<Rightarrow> Inl e
           | Inr values \<Rightarrow>
               (case db k d of
                  Some e \<Rightarrow> Inl e
                | None \<Rightarrow>
                    Inr (map (\<lambda>q. if poi_id q = k then update_row update_fields p values else q)
                           objs)))
      | _ \<Rightarrow> Inl MultipleObjectsReturned)"



section \<open>Rows and their coercions\<close>

text \<open>
  A row maps column names to cells.  \<^verbatim>\<open>row.get(k)\<close> gives \<^verbatim>\<open>None\<close> for an absent
  column, \<^verbatim>\<open>row.get(k, default)\<close> the default, and \<^verbatim>\<open>row[k]\<close> raises \<open>KeyError\<close>.
\<close>

type_synonym row = "string \<rightharpoonup> pyval"

definition row_get :: "row \<Rightarrow> string \<Rightarrow> pyval \<Rightarrow> pyval" where
  "row_get r k dflt = (case r k of None \<Rightarrow> dflt | Some v \<Rightarrow> v)"

definition row_item :: "row \<Rightarrow> string \<Rightarrow> exn + pyval" where
  "row_item r k = (case r k of None \<Rightarrow> Inl KeyError | Some v \<Rightarrow> Inr v)"

text \<open>\<^verbatim>\<open>v is None or (hasattr(v, '__len__') and len(v) == 0)\<close>: strings and lists have a length.\<close>

fun has_len :: "pyval \<Rightarrow> bool" where
  "has_len (PStr s) = True"
| "has_len (PList xs) = True"
| "has_len v = False"

fun py_len :: "pyval \<Rightarrow> nat" where
  "py_len (PStr s) = length s"
| "py_len (PList xs) = length xs"
| "py_len v = 0"

definition is_missing :: "pyval \<Rightarrow> bool" where
  "is_missing v = (v = PNone \<or> (has_len v \<and> py_len v = 0))"

text \<open>
  \<^verbatim>\<open>int(str)\<close>: white space removed at both ends, an optional sign, then decimal digits,
  single underscores allowed between them.  \<^verbatim>\<open>int(float)\<close> truncates towards zero.
\<close>

definition int_of_str :: "string \<Rightarrow> int option" where
  "int_of_str s =
     (let (neg, r) = split_sign (float_strip s)
      in case drop_underscores (CHR 0x00) r of
           None \<Rightarrow> None
         | Some ds \<Rightarrow>
             if ds \<noteq> [] \<and> list_all is_digit ds
             then Some (if neg then - int (digits_value ds) else int (digits_value ds))
             else None)"

fun py_int :: "pyval \<Rightarrow> exn + int" where
  "py_int PNone = Inl TypeError"
| "py_int (PBool b) = Inr (if b then 1 else 0)"
| "py_int (PInt n) = Inr n"
| "py_int (PFloat (Fin r)) = Inr (if 0 \<le> r then \<lfloor>r\<rfloor> else \<lceil>r\<rceil>)"
| "py_int (PFloat NaN) = Inl ValueError"
| "py_int (PFloat f) = Inl OverflowError"
| "py_int (PStr s) = (case int_of_str s of None \<Rightarrow> Inl ValueError | Some n \<Rightarrow> Inr n)"
| "py_int (PList xs) = Inl TypeError"

text \<open>
  \<^verbatim>\<open>str(v)\<close> is the string itself for a string; for any other value it is the
  interpreter's rendering, taken as the parameter \<open>repr\<close>.
\<close>

definition py_str :: "(pyval \<Rightarrow> string) \<Rightarrow> pyval \<Rightarrow> string" where
  "py_str repr v = (case v of PStr s \<Rightarrow> s | _ \<Rightarrow> repr v)"

text \<open>
  The truth value of \<^verbatim>\<open>pd.isna(v)\<close>: \<^verbatim>\<open>None\<close> and NaN are missing; a list becomes an
  array, whose truth value is that of its only element and raises \<open>ValueError\<close> when
  it has none or several.
\<close>

fun pd_isna :: "pyval \<Rightarrow> exn + bool" where
  "pd_isna PNone = Inr True"
| "pd_isna (PFloat f) = Inr (f = NaN)"
| "pd_isna (PList [x]) = pd_isna x"
| "pd_isna (PList xs) = Inl ValueError"
| "pd_isna v = Inr False"

section \<open>The import loop\<close>

datatype message =
    MissingCoordinates nat
  | InvalidCoordinates nat
  | RowError nat exn
  | Processed nat
  | ImportComplete string nat nat nat
  | ProcessingXML nat
  | XMLFileNotFound
  | ErrorReadingXML exn

record state =
  success_count :: nat
  error_count :: nat
  duplicate_count :: nat
  stdout :: "message list"
  objects :: "poi list"

text \<open>
  The body of the inner \<^verbatim>\<open>try\<close>: both cells are read, then both tested for a missing
  value, then both coerced.  \<open>Missing\<close> stands for the branch that warns of missing
  coordinates and continues.
\<close>

datatype coordinates = Missing | Coordinates pyfloat pyfloat

definition read_coordinates :: "row \<Rightarrow> exn + coordinates" where
  "read_coordinates r =
     (case row_item r ''latitude'' of Inl e \<Rightarrow> Inl e | Inr latitude_val \<Rightarrow>
      case row_item r ''longitude'' of Inl e \<Rightarrow> Inl e | Inr longitude_val \<Rightarrow>
      case pd_isna latitude_val of Inl e \<Rightarrow> Inl e | Inr True \<Rightarrow> Inr Missing | Inr False \<Rightarrow>
      case pd_isna longitude_val of Inl e \<Rightarrow> Inl e | Inr True \<Rightarrow> Inr Missing | Inr False \<Rightarrow>
      case py_float latitude_val of Inl e \<Rightarrow> Inl e | Inr lat \<Rightarrow>
      case py_float longitude_val of Inl e \<Rightarrow> Inl e | Inr lon \<Rightarrow>
        Inr (Coordinates lat lon))"

text \<open>The two outer handlers: \<open>IntegrityError\<close> counts a duplicate, anything else an error with a line.\<close>

definition on_exception :: "state \<Rightarrow> nat \<Rightarrow> exn \<Rightarrow> state" where
  "on_exception st index e =
     (if e = IntegrityError then st\<lparr>duplicate_count := duplicate_count st + 1\<rparr>
      else st\<lparr>error_count := error_count st + 1,
              stdout := stdout st @ [RowError (index + 1) e]\<rparr>)"

definition on_success :: "state \<Rightarrow> poi list \<Rightarrow> state" where
  "on_success st objs =
     (let n = success_count st + 1
      in if n mod 100 = 0
         then st\<lparr>success_count := n, stdout := stdout st @ [Processed n], objects := objs\<rparr>
         else st\<lparr>success_count := n, objects := objs\<rparr>)"

text \<open>
  One turn of the loop of \<^verbatim>\<open>process_dataframe\<close>, on the row at position \<open>index\<close>, in
  two parts.  The first is everything before the upsert, which reads the row only: the
  presence checks, the coercions, the coordinates, the ratings.  It ends by
  \<^verbatim>\<open>continue\<close> without a line (\<open>Skipped\<close>) or after a warning (\<open>Warned\<close>), by an
  exception that reaches the outer handlers (\<open>Raised\<close>), or with the key and the
  defaults of the upsert (\<open>Valid\<close>).
\<close>

datatype outcome = Skipped | Warned message | Raised exn | Valid int defaults

definition validate_row :: "(pyval \<Rightarrow> string) \<Rightarrow> nat \<Rightarrow> row \<Rightarrow> outcome" where
  "validate_row repr index r =
     (let poi_id_val = row_get r ''poi_id'' PNone;
          name_val = row_get r ''name'' PNone;
          category_val = row_get r ''category'' PNone
      in if is_missing poi_id_val then Skipped
         else if is_missing name_val then Skipped
         else if is_missing category_val then Skipped
         else
           (case py_int poi_id_val of
              Inl e \<Rightarrow> Raised e
            | Inr k \<Rightarrow>
                (case read_coordinates r of
                   Inl e \<Rightarrow>
                     if e = ValueError \<or> e = TypeError
                     then Warned (InvalidCoordinates (index + 1))
                     else Raised e
                 | Inr Missing \<Rightarrow> Warned (MissingCoordinates (index + 1))
                 | Inr (Coordinates lat lon) \<Rightarrow>
                     (case parse_ratings (row_get r ''ratings'' (PList [])) of
                        Inl e \<Rightarrow> Raised e
                      | Inr rs \<Rightarrow>
                          Valid k \<lparr>name = strip (py_str repr name_val),
                                   category = strip (py_str repr category_val),
                                   latitude = lat, longitude = lon, ratings = rs\<rparr>))))"

text \<open>The second part is the upsert, the counters and the handlers.\<close>

definition process_row ::
  "bool \<Rightarrow> (int \<Rightarrow> defaults \<Rightarrow> exn option) \<Rightarrow> (pyval \<Rightarrow> string) \<Rightarrow> state \<Rightarrow> nat \<Rightarrow> row \<Rightarrow>
   state" where
  "process_row update_fields db repr st index r =
     (case validate_row repr index r of
        Skipped \<Rightarrow> st
      | Warned m \<Rightarrow> st\<lparr>stdout := stdout st @ [m]\<rparr>
      | Raised e \<Rightarrow> on_exception st index e
      | Valid k d \<Rightarrow>
          (case update_or_create update_fields db (objects st) k d of
             Inl e \<Rightarrow> on_exception st index e
           | Inr objs \<Rightarrow> on_success st objs))"

fun process_rows ::
  "bool \<Rightarrow> (int \<Rightarrow> defaults \<Rightarrow> exn option) \<Rightarrow> (pyval \<Rightarrow> string) \<Rightarrow> state \<Rightarrow> nat \<Rightarrow> row list \<Rightarrow>
   state" where
  "process_rows update_fields db repr st index [] = st"
| "process_rows update_fields db repr st index (r # rs) =
     process_rows update_fields db repr (process_row update_fields db repr st index r)
       (Suc index) rs"

text \<open>
  \<^verbatim>\<open>process_dataframe\<close>: the counters start at zero, the rows are taken in order, and the
  summary line closes the output.  The result holds the counters, the lines written and
  the table afterwards.
\<close>

definition process_dataframe ::
  "bool \<Rightarrow> (int \<Rightarrow> defaults \<Rightarrow> exn option) \<Rightarrow> (pyval \<Rightarrow> string) \<Rightarrow> poi list \<Rightarrow> row list \<Rightarrow>
   string \<Rightarrow> state" where
  "process_dataframe update_fields db repr objs df file_type =
     (let st = process_rows update_fields db repr
                 \<lparr>success_count = 0, error_count = 0, duplicate_count = 0,
                  stdout = [], objects = objs\<rparr> 0 df
      in st\<lparr>stdout := stdout st @
            [ImportComplete file_type (success_count st) (duplicate_count st) (error_count st)]\<rparr>)"

section \<open>Importing an XML file\<close>

type_synonym byte = "8 word"

text \<open>The exceptions that \<^verbatim>\<open>except OSError\<close> catches.\<close>

definition is_OSError :: "exn \<Rightarrow> bool" where
  "is_OSError e = (e = OSError \<or> e = FileNotFoundError \<or> e = BadGzipFile)"

text \<open>
  \<^verbatim>\<open>gzip.decompress\<close> of the standard library, as far as the fixed part of the header: no
  data gives no data, a wrong magic number raises \<open>BadGzipFile\<close>, fewer than the eight
  header bytes after it raise \<open>EOFError\<close>, a compression method other than 8 raises
  \<open>BadGzipFile\<close>.  What follows (the optional header fields, the deflate stream, the
  check sums, further members) is the parameter \<open>inflate\<close>.
\<close>

definition gzip_decompress :: "(byte list \<Rightarrow> exn + byte list) \<Rightarrow> byte list \<Rightarrow> exn + byte list" where
  "gzip_decompress inflate data =
     (if data = [] then Inr []
      else if take 2 data \<noteq> [0x1F, 0x8B] then Inl BadGzipFile
      else if length data < 10 then Inl EOFError
      else if data ! 2 \<noteq> 8 then Inl BadGzipFile
      else inflate data)"

text \<open>
  The sniffing step of \<^verbatim>\<open>import_xml\<close>: on the magic bytes the data is decompressed, and
  an \<open>OSError\<close> of the decompression is passed over, leaving the bytes as they were.
\<close>

definition gunzip_if_gzip :: "(byte list \<Rightarrow> exn + byte list) \<Rightarrow> byte list \<Rightarrow> exn + byte list" where
  "gunzip_if_gzip inflate raw =
     (if 2 \<le> length raw \<and> raw ! 0 = 0x1F \<and> raw ! 1 = 0x8B
      then (case gzip_decompress inflate raw of
              Inl e \<Rightarrow> if is_OSError e then Inr raw else Inl e
            | Inr data \<Rightarrow> Inr data)
      else Inr raw)"

text \<open>\<^verbatim>\<open>text[first_lt:]\<close> when \<^verbatim>\<open>text.find('<')\<close> is positive.\<close>

definition from_first_tag :: "ustring \<Rightarrow> ustring" where
  "from_first_tag text =
     (if of_char CHR ''<'' \<in> set text then dropWhile (\<lambda>c. c \<noteq> of_char CHR ''<'') text
      else text)"

text \<open>\<^verbatim>\<open>text.lstrip()\<close> removes the leading characters for which \<^verbatim>\<open>str.isspace\<close> holds.\<close>

definition is_unicode_space :: "nat \<Rightarrow> bool" where
  "is_unicode_space c =
     (c \<in> set [9, 10, 11, 12, 13, 28, 29, 30, 31, 32, 133, 160, 5760, 8192, 8193, 8194, 8195,
               8196, 8197, 8198, 8199, 8200, 8201, 8202, 8232, 8233, 8239, 8287, 12288])"

definition lstrip :: "ustring \<Rightarrow> ustring" where
  "lstrip s = dropWhile is_unicode_space s"

text \<open>
  \<^verbatim>\<open>df.rename(columns=column_mapping)\<close> on a row: a column of the mapping is found under
  its new name and no longer under its old one.  (Frames in which a renamed column meets
  a column that already has the new name are outside the model.)
\<close>

definition xml_column_mapping :: "(string \<times> string) list" where
  "xml_column_mapping =
     [(''pid'', ''poi_id''), (''pname'', ''name''), (''pcategory'', ''category''),
      (''platitude'', ''latitude''), (''plongitude'', ''longitude''), (''pratings'', ''ratings'')]"

definition rename_columns :: "(string \<times> string) list \<Rightarrow> row \<Rightarrow> row" where
  "rename_columns mapping r =
     (\<lambda>k. case find (\<lambda>(old, new). new = k \<and> r old \<noteq> None) mapping of
            Some (old, new) \<Rightarrow> r old
          | None \<Rightarrow> if k \<in> set (map fst mapping) then None else r k)"

text \<open>
  The part of \<^verbatim>\<open>import_xml\<close> after the sniffing step: the bytes are decoded (\<open>decode\<close>,
  which never fails with \<^verbatim>\<open>errors='replace'\<close>), cut to the first tag, stripped on the
  left and sanitized; the text is parsed (\<open>read_xml\<close>), the columns renamed and the frame
  processed.  A parse failure is a file-level error.  The result is the lines written
  and the table afterwards.
\<close>

definition import_xml_bytes ::
  "(byte list \<Rightarrow> ustring) \<Rightarrow> (ustring \<Rightarrow> exn + row list) \<Rightarrow> bool \<Rightarrow>
   (int \<Rightarrow> defaults \<Rightarrow> exn option) \<Rightarrow> (pyval \<Rightarrow> string) \<Rightarrow> byte list \<Rightarrow> poi list \<Rightarrow>
   message list \<times> poi list" where
  "import_xml_bytes decode read_xml update_fields db repr raw objs =
     (let text = sanitize_ampersands (lstrip (from_first_tag (decode raw)))
      in case read_xml text of
           Inl e \<Rightarrow> ([ErrorReadingXML e], objs)
         | Inr frame \<Rightarrow>
             (let df = map (rename_columns xml_column_mapping) frame;
                  st = process_dataframe update_fields db repr objs df ''XML''
              in (ProcessingXML (length df) # stdout st, objects st)))"

text \<open>
  \<^verbatim>\<open>import_xml\<close>: \<open>file\<close> is what opening and reading the path gives.  A missing file
  has a line of its own; any other exception before the frame is processed is reported
  as an error of the file.
\<close>

definition import_xml ::
  "(byte list \<Rightarrow> exn + byte list) \<Rightarrow> (byte list \<Rightarrow> ustring) \<Rightarrow> (ustring \<Rightarrow> exn + row list) \<Rightarrow>
   bool \<Rightarrow> (int \<Rightarrow> defaults \<Rightarrow> exn option) \<Rightarrow> (pyval \<Rightarrow> string) \<Rightarrow> exn + byte list \<Rightarrow>
   poi list \<Rightarrow> message list \<times> poi list" where
  "import_xml inflate decode read_xml update_fields db repr file objs =
     (case file of
        Inl e \<Rightarrow> if e = FileNotFoundError then ([XMLFileNotFound], objs)
                 else ([ErrorReadingXML e], objs)
      | Inr raw \<Rightarrow>
          (case gunzip_if_gzip inflate raw of
             Inl e \<Rightarrow> ([ErrorReadingXML e], objs)
           | Inr data \<Rightarrow> import_xml_bytes decode read_xml update_fields db repr data objs))"

section \<open>Auxiliary functions for the properties of the upsert\<close>









section \<open>Properties of the ampersand escaping\<close>

text \<open>The backtracking matcher accepts exactly a non-empty run of the class followed by \<open>k\<close>.\<close>

lemma plus_then_iff:
  "plus_then cls k s \<longleftrightarrow> (\<exists>ds. ds \<noteq> [] \<and> list_all cls ds \<and> prefix (ds @ k) s)"
proof (induction s)
  case Nil
  then show ?case by simp
next
  case (Cons c s)
  show ?case
  proof
    assume "plus_then cls k (c # s)"
    then have c: "cls c" and d: "plus_then cls k s \<or> prefix k s" by auto
    from d show "\<exists>ds. ds \<noteq> [] \<and> list_all cls ds \<and> prefix (ds @ k) (c # s)"
    proof
      assume "plus_then cls k s"
      with Cons obtain ds where "ds \<noteq> []" "list_all cls ds" "prefix (ds @ k) s" by auto
      with c have "c # ds \<noteq> [] \<and> list_all cls (c # ds) \<and> prefix ((c # ds) @ k) (c # s)" by simp
      then show ?thesis by blast
    next
      assume "prefix k s"
      with c have "[c] \<noteq> [] \<and> list_all cls [c] \<and> prefix ([c] @ k) (c # s)" by simp
      then show ?thesis by blast
    qed
  next
    assume "\<exists>ds. ds \<noteq> [] \<and> list_all cls ds \<and> prefix (ds @ k) (c # s)"
    then obtain ds where ds: "ds \<noteq> []" "list_all cls ds" "prefix (ds @ k) (c # s)" by auto
    then obtain d es where de: "ds = d # es" by (cases ds) auto
    with ds have c: "cls c" "d = c" and p: "prefix (es @ k) s" and a: "list_all cls es" by auto
    show "plus_then cls k (c # s)"
    proof (cases es)
      case Nil
      with p c show ?thesis by simp
    next
      case (Cons e fs)
      with p a have "\<exists>ds. ds \<noteq> [] \<and> list_all cls ds \<and> prefix (ds @ k) s" by blast
      with Cons.IH c show ?thesis by simp
    qed
  qed
qed

text \<open>The two list cases of the lookahead, as equations on the text after the ampersand.\<close>

lemma hash_case:
  "(case s of c # r \<Rightarrow> c = h \<and> P r | [] \<Rightarrow> False) \<longleftrightarrow> (\<exists>r. s = h # r \<and> P r)"
  by (cases s) auto

lemma hash_x_case:
  "(case s of [] \<Rightarrow> False | [c] \<Rightarrow> False | c # d # r \<Rightarrow> c = h \<and> d = x \<and> P r)
     \<longleftrightarrow> (\<exists>r. s = h # x # r \<and> P r)"
  by (simp split: list.split)

lemma numeric_body:
  "(\<exists>r. s = h @ r \<and> plus_then cls k r)
     \<longleftrightarrow> (\<exists>ds. ds \<noteq> [] \<and> list_all cls ds \<and> prefix (h @ ds @ k) s)"
  unfolding plus_then_iff prefix_def by auto

lemma lookahead_with_cases:
  "lookahead_with dec s \<longleftrightarrow>
     (\<exists>p \<in> set [ascii ''amp;'', ascii ''lt;'', ascii ''gt;'', ascii ''quot;'', ascii ''apos;''].
        prefix p s) \<or>
     (\<exists>r. s = ascii ''#'' @ r \<and> plus_then dec (ascii '';'') r) \<or>
     (\<exists>r. s = ascii ''#x'' @ r \<and> plus_then is_hex (ascii '';'') r)"
  unfolding lookahead_with_def hash_case hash_x_case
  by (simp only: list.set bex_simps insert_iff empty_iff append.simps list.map) blast

lemma starts_entity_cases:
  "starts_entity dec s \<longleftrightarrow>
     (\<exists>p \<in> set [ascii ''amp;'', ascii ''lt;'', ascii ''gt;'', ascii ''quot;'', ascii ''apos;''].
        prefix p s) \<or>
     (\<exists>ds. ds \<noteq> [] \<and> list_all dec ds \<and> prefix (ascii ''#'' @ ds @ ascii '';'') s) \<or>
     (\<exists>hs. hs \<noteq> [] \<and> list_all is_hex hs \<and> prefix (ascii ''#x'' @ hs @ ascii '';'') s)"
  unfolding starts_entity_def entity_body_def by blast

text \<open>
  The lookahead with a class for the decimal digits accepts exactly the texts that start
  with an entity body whose decimal digits are of that class.
\<close>

lemma lookahead_with_iff: "lookahead_with dec s \<longleftrightarrow> starts_entity dec s"
  unfolding lookahead_with_cases starts_entity_cases numeric_body ..

lemma entity_lookahead_iff: "entity_lookahead s \<longleftrightarrow> starts_entity is_decimal s"
  by (simp add: entity_lookahead_def lookahead_with_iff)

lemma escape_at_Suc: "escape_at dec (c # s) (Suc i) = escape_at dec s i"
  by (simp add: escape_at_def)

lemma positions_Cons:
  "map (escape_at dec (c # s)) [0..<length (c # s)]
     = escape_at dec (c # s) 0 # map (escape_at dec s) [0..<length s]"
proof -
  have "[0..<length (c # s)] = 0 # map Suc [0..<length s]"
    by (simp add: upt_conv_Cons map_Suc_upt del: upt_Suc)
  then show ?thesis by (simp add: escape_at_Suc comp_def)
qed

text \<open>
  What the code does, for every text: it replaces by \<^verbatim>\<open>&amp;\<close> exactly the ampersands that
  do not start an entity reference in the sense of its own pattern, in which a decimal
  reference may be written with any Unicode decimal digits, and leaves every other
  character as it is.
\<close>

theorem sanitize_ampersands_escapes_by_pattern:
  "sanitize_ampersands s = concat (map (escape_at is_decimal s) [0..<length s])"
proof (induction s)
  case Nil
  show ?case by simp
next
  case (Cons c s)
  have "concat (map (escape_at is_decimal (c # s)) [0..<length (c # s)])
        = escape_at is_decimal (c # s) 0 @ concat (map (escape_at is_decimal s) [0..<length s])"
    by (simp only: positions_Cons concat.simps)
  also have "\<dots> = escape_at is_decimal (c # s) 0 @ sanitize_ampersands s"
    by (simp only: Cons.IH)
  also have "\<dots> = sanitize_ampersands (c # s)"
    by (simp add: escape_at_def entity_lookahead_iff)
  finally show ?case by simp
qed

theorem sanitize_ampersands_escapes_by_pattern_witness:
  "sanitize_ampersands (ascii ''R&D &lt; &#38;'') = ascii ''R&amp;D &lt; &#38;'' \<and>
   concat (map (escape_at is_decimal (ascii ''R&D &lt; &#38;''))
      [0..<length (ascii ''R&D &lt; &#38;'')]) = ascii ''R&amp;D &lt; &#38;''"
  using sanitize_ampersands_escapes_by_pattern [of "ascii ''R&D &lt; &#38;''"]
  by (simp add: entity_lookahead_def lookahead_with_def is_decimal_def decimal_ranges_def)

text \<open>
  Claim C9 asks that exactly the ampersands that do not start a recognized entity
  reference (a named entity, a decimal reference \<^verbatim>\<open>&#digits;\<close> or a hexadecimal one) are
  replaced.  The code does not meet it: its pattern writes the decimal digits as \<^verbatim>\<open>\d\<close>,
  which over \<^verbatim>\<open>str\<close> is every Unicode decimal digit, while the hexadecimal class beside it
  is written out in ASCII.  On the text \<^verbatim>\<open>&#\<close>, ARABIC-INDIC DIGIT THREE (code point 1635),
  \<^verbatim>\<open>;\<close> the ampersand starts no entity reference of XML, the position should be escaped,
  and the code returns the text unchanged.
\<close>

theorem sanitize_ampersands_keeps_non_ascii_digit_reference:
  "sanitize_ampersands (ascii ''&#'' @ [1635] @ ascii '';'') = ascii ''&#'' @ [1635] @ ascii '';'' \<and>
   \<not> starts_entity xml_digit (ascii ''#'' @ [1635] @ ascii '';'') \<and>
   escape_at xml_digit (ascii ''&#'' @ [1635] @ ascii '';'') 0 = ascii ''&amp;''"
proof -
  have n: "\<not> starts_entity xml_digit (ascii ''#'' @ [1635] @ ascii '';'')"
    unfolding lookahead_with_iff [symmetric]
    by (simp add: lookahead_with_def xml_digit_def is_hex_def)
  have "sanitize_ampersands (ascii ''&#'' @ [1635] @ ascii '';'') = ascii ''&#'' @ [1635] @ ascii '';''"
    by (simp add: entity_lookahead_def lookahead_with_def is_decimal_def decimal_ranges_def)
  moreover from n have "escape_at xml_digit (ascii ''&#'' @ [1635] @ ascii '';'') 0 = ascii ''&amp;''"
    by (simp add: escape_at_def)
  ultimately show ?thesis using n by blast
qed

text \<open>An entity body holds no ampersand, so the sanitization passes over it unchanged.\<close>

lemma amp_not_decimal: "\<not> is_decimal (of_char CHR ''&'')"
  by (simp add: is_decimal_def decimal_ranges_def)

lemma amp_not_hex: "\<not> is_hex (of_char CHR ''&'')"
  by (simp add: is_hex_def)

lemma list_all_no_amp:
  "list_all cls ds \<Longrightarrow> \<not> cls (of_char CHR ''&'') \<Longrightarrow> of_char CHR ''&'' \<notin> set ds"
  by (auto simp: list_all_iff)

lemma entity_body_no_amp:
  assumes "entity_body dec p" and "\<not> dec (of_char CHR ''&'')"
  shows "of_char CHR ''&'' \<notin> set p"
proof -
  from assms(1)
  consider (named) "p \<in> set [ascii ''amp;'', ascii ''lt;'', ascii ''gt;'', ascii ''quot;'', ascii ''apos;'']"
    | (dec) ds where "list_all dec ds" "p = ascii ''#'' @ ds @ ascii '';''"
    | (hex) hs where "list_all is_hex hs" "p = ascii ''#x'' @ hs @ ascii '';''"
    unfolding entity_body_def by blast
  then show ?thesis
  proof cases
    case named
    then show ?thesis by auto
  next
    case dec
    then show ?thesis using list_all_no_amp [OF dec(1) assms(2)] by simp
  next
    case hex
    then show ?thesis using list_all_no_amp [OF hex(1) amp_not_hex] by simp
  qed
qed

lemma sanitize_no_amp_prefix:
  "of_char CHR ''&'' \<notin> set p \<Longrightarrow> sanitize_ampersands (p @ r) = p @ sanitize_ampersands r"
  by (induction p) auto

lemma starts_entity_sanitize:
  "starts_entity is_decimal s \<Longrightarrow> starts_entity is_decimal (sanitize_ampersands s)"
proof -
  assume "starts_entity is_decimal s"
  then obtain p r where b: "entity_body is_decimal p" and s: "s = p @ r"
    unfolding starts_entity_def prefix_def by blast
  from entity_body_no_amp [OF b amp_not_decimal]
  have "sanitize_ampersands (p @ r) = p @ sanitize_ampersands r"
    by (rule sanitize_no_amp_prefix)
  with s have "sanitize_ampersands s = p @ sanitize_ampersands r" by simp
  with b show ?thesis unfolding starts_entity_def prefix_def by blast
qed

text \<open>
  Claim C10.  The ampersand sanitization is idempotent: applying it twice gives what
  applying it once gives, since every ampersand of its result starts an entity reference,
  either one that was there or the \<^verbatim>\<open>&amp;\<close> it wrote.
\<close>

theorem sanitize_ampersands_idempotent:
  "sanitize_ampersands (sanitize_ampersands s) = sanitize_ampersands s"
proof (induction s)
  case Nil
  show ?case by simp
next
  case (Cons c s)
  show ?case
  proof (cases "c = of_char CHR ''&'' \<and> \<not> entity_lookahead s")
    case True
    have "entity_lookahead (ascii ''amp;'' @ sanitize_ampersands s)"
      by (simp add: entity_lookahead_def lookahead_with_def)
    then have "sanitize_ampersands (ascii ''&amp;'' @ sanitize_ampersands s)
        = ascii ''&amp;'' @ sanitize_ampersands (sanitize_ampersands s)"
      by simp
    with True Cons.IH show ?thesis by simp
  next
    case False
    then have "c \<noteq> of_char CHR ''&'' \<or> entity_lookahead (sanitize_ampersands s)"
      using starts_entity_sanitize [of s] by (auto simp: entity_lookahead_iff)
    with False Cons.IH show ?thesis by auto
  qed
qed

theorem sanitize_ampersands_idempotent_witness:
  "sanitize_ampersands (sanitize_ampersands (ascii ''Fish & Chips'')) = ascii ''Fish &amp; Chips''"
  using sanitize_ampersands_idempotent [of "ascii ''Fish & Chips''"]
  by (simp add: entity_lookahead_def lookahead_with_def)

section \<open>Properties of the ratings parser\<close>

text \<open>The definitions that evaluate \<^verbatim>\<open>float\<close> and \<^verbatim>\<open>strip\<close> on a concrete string.\<close>

lemmas float_eval =
  unbrace_def strip_def is_space_def startswith_def endswith_def float_of_str_def
  is_digit_def float_strip_def is_float_space_def parse_float_body_def split_sign_def
  parse_decimal_def parse_exponent_def upper_of_def digits_value_def round_overflow_def
  float_max_bound_def

text \<open>
  The comprehension over the pieces succeeds exactly when every non-empty trimmed piece
  coerces, and then gives their values in order; otherwise it raises \<open>ValueError\<close>.
\<close>

lemma float_pieces_all_or_nothing:
  "float_pieces rs =
     (if list_all (\<lambda>p. float_of_str p \<noteq> None) (filter (\<lambda>p. p \<noteq> []) (map strip rs))
      then Inr (map (\<lambda>p. the (float_of_str p)) (filter (\<lambda>p. p \<noteq> []) (map strip rs)))
      else Inl ValueError)"
  by (induction rs) (auto split: option.splits)

lemma unbrace_braces: "unbrace (''{'' @ body @ ''}'') = body"
  by (simp add: unbrace_def startswith_def endswith_def butlast_append)

text \<open>
  Claim C4, as amended.  On the string \<^verbatim>\<open>{1.0, 2.5, bad, 3}\<close> the ratings parser strips the
  braces and returns the empty sequence, because the piece \<^verbatim>\<open>bad\<close> does not coerce and the
  string form is all-or-nothing; without that piece, on \<^verbatim>\<open>{1.0, 2.5, 3}\<close>, it returns
  \<open>[1.0, 2.5, 3.0]\<close>.
\<close>

theorem parse_ratings_example:
  "parse_ratings (PStr ''{1.0, 2.5, bad, 3}'') = Inr [] \<and>
   parse_ratings (PStr ''{1.0, 2.5, 3}'') = Inr [Fin 1, Fin (5 / 2), Fin 3]"
  by (simp add: float_eval)

text \<open>
  The claim as the specification states it fails: the parser does not return
  \<open>[1.0, 2.5, 3.0]\<close> on \<^verbatim>\<open>{1.0, 2.5, bad, 3}\<close>.
\<close>

theorem parse_ratings_example_counterexample:
  "parse_ratings (PStr ''{1.0, 2.5, bad, 3}'') \<noteq> Inr [Fin 1, Fin (5 / 2), Fin 3]"
  by (simp add: float_eval)

text \<open>
  Claim C5.  For every string given to the ratings parser: the string is trimmed; if it
  then starts with an opening and ends with a closing brace, that one pair is removed;
  the rest is split on commas, every piece is trimmed and the empty pieces are dropped;
  if every remaining piece coerces to a float the result is their values in order, and
  if a single piece fails the result is the empty sequence, not the values of the others.
\<close>

theorem parse_ratings_string_all_or_nothing:
  "parse_ratings (PStr s) =
     (let pieces = filter (\<lambda>p. p \<noteq> []) (map strip (split CHR '','' (unbrace (strip s))))
      in if list_all (\<lambda>p. float_of_str p \<noteq> None) pieces
         then Inr (map (\<lambda>p. the (float_of_str p)) pieces)
         else Inr [])
   \<and> unbrace (''{'' @ body @ ''}'') = body
   \<and> (\<not> (startswith t ''{'' \<and> endswith t ''}'') \<longrightarrow> unbrace t = t)"
proof -
  have "strip [] = []" by (simp add: strip_def)
  then have e: "unbrace (strip s) = [] \<Longrightarrow>
      filter (\<lambda>p. p \<noteq> []) (map strip (split CHR '','' (unbrace (strip s)))) = []"
    by simp
  have "parse_ratings (PStr s) =
     (let pieces = filter (\<lambda>p. p \<noteq> []) (map strip (split CHR '','' (unbrace (strip s))))
      in if list_all (\<lambda>p. float_of_str p \<noteq> None) pieces
         then Inr (map (\<lambda>p. the (float_of_str p)) pieces)
         else Inr [])"
    using e by (simp add: float_pieces_all_or_nothing Let_def)
  moreover have "\<not> (startswith t ''{'' \<and> endswith t ''}'') \<longrightarrow> unbrace t = t"
    by (simp add: unbrace_def)
  ultimately show ?thesis using unbrace_braces by blast
qed

theorem parse_ratings_string_all_or_nothing_witness:
  "parse_ratings (PStr '' {4, x} '') = Inr [] \<and>
   parse_ratings (PStr '' {4, ,5} '') = Inr [Fin 4, Fin 5] \<and>
   unbrace (''{'' @ ''4, x'' @ ''}'') = ''4, x'' \<and> unbrace ''4}'' = ''4}''"
  using parse_ratings_string_all_or_nothing [of "'' {4, x} ''" "''4, x''" "''4}''"]
    parse_ratings_string_all_or_nothing [of "'' {4, ,5} ''" "''4, x''" "''4}''"]
  by (simp add: float_eval)

section \<open>Properties of the import loop\<close>

text \<open>The definitions that evaluate one turn of the loop on a concrete row.\<close>

lemmas row_eval =
  process_row_def validate_row_def py_str_def row_get_def row_item_def is_missing_def
  read_coordinates_def on_exception_def on_success_def update_or_create_def new_poi_def
  set_defaults_def update_row_def prepare_def save_def py_sum_def int_of_str_def
  process_dataframe_def Let_def

text \<open>The decimal columns on the coordinates of the examples.\<close>

lemma decimal_field_0: "decimal_field 10 7 (Fin 0) = Inr 0"
  by code_simp

lemma decimal_field_1: "decimal_field 10 7 (Fin 1) = Inr 1"
  by code_simp

lemma decimal_field_2: "decimal_field 10 7 (Fin 2) = Inr 2"
  by code_simp

lemma decimal_field_rounds:
  "decimal_field 10 7 (Fin (123456789 / 100000000)) = Inr (12345679 / 10000000)"
  by code_simp

lemma decimal_field_out_of_range:
  "decimal_field 10 7 (Fin (2469 / 2)) = Inl InvalidOperation \<and>
   decimal_field 10 7 (Fin (99999999996 / 100000000)) = Inl InvalidOperation \<and>
   decimal_field 10 7 (Fin (99999999994 / 100000000)) = Inr (9999999999 / 10000000) \<and>
   decimal_field 10 7 PosInf = Inl InvalidOperation \<and>
   decimal_field 10 7 NaN = Inl ValidationError"
  by code_simp

lemmas decimal_examples = decimal_field_0 decimal_field_1 decimal_field_2 decimal_field_rounds

subsection \<open>The derived average\<close>

text \<open>
  Claim C1 asks that at every write the stored \<open>avg_rating\<close> is the mean of the stored
  \<open>ratings\<close>, and unset when there are none, also when an update empties them.  The code
  does not do the latter: \<^verbatim>\<open>save\<close> assigns the average only when the ratings are
  non-empty and has no other branch.  With a stored record of ratings \<open>[4.0]\<close> and
  average \<open>4.0\<close>, importing a row with the same key and the ratings \<^verbatim>\<open>{}\<close> leaves a
  record with no ratings and the average \<open>4.0\<close>, whichever columns the update writes;
  \<^verbatim>\<open>save\<close> alone leaves that object as it is.
\<close>

theorem save_keeps_average_of_emptied_ratings:
  "objects (process_dataframe False (\<lambda>k d. None) (\<lambda>v. ''?'')
     [\<lparr>name = ''Cafe'', category = ''Food'', latitude = 1, longitude = 2,
       ratings = [Fin 4], poi_id = 7, avg_rating = Some (Fin 4)\<rparr>]
     [[''poi_id'' \<mapsto> PInt 7, ''name'' \<mapsto> PStr ''Cafe'', ''category'' \<mapsto> PStr ''Food'',
       ''latitude'' \<mapsto> PFloat (Fin 1), ''longitude'' \<mapsto> PFloat (Fin 2),
       ''ratings'' \<mapsto> PStr ''{}'']] ''CSV'')
   = [\<lparr>name = ''Cafe'', category = ''Food'', latitude = 1, longitude = 2,
       ratings = [], poi_id = 7, avg_rating = Some (Fin 4)\<rparr>]
   \<and> objects (process_dataframe True (\<lambda>k d. None) (\<lambda>v. ''?'')
     [\<lparr>name = ''Cafe'', category = ''Food'', latitude = 1, longitude = 2,
       ratings = [Fin 4], poi_id = 7, avg_rating = Some (Fin 4)\<rparr>]
     [[''poi_id'' \<mapsto> PInt 7, ''name'' \<mapsto> PStr ''Cafe'', ''category'' \<mapsto> PStr ''Food'',
       ''latitude'' \<mapsto> PFloat (Fin 1), ''longitude'' \<mapsto> PFloat (Fin 2),
       ''ratings'' \<mapsto> PStr ''{}'']] ''CSV'')
   = [\<lparr>name = ''Cafe'', category = ''Food'', latitude = 1, longitude = 2,
       ratings = [], poi_id = 7, avg_rating = Some (Fin 4)\<rparr>]
   \<and> save \<lparr>name = ''Cafe'', category = ''Food'', latitude = 1, longitude = 2,
       ratings = [], poi_id = 7, avg_rating = Some (Fin 4)\<rparr>
     = \<lparr>name = ''Cafe'', category = ''Food'', latitude = 1, longitude = 2,
       ratings = [], poi_id = 7, avg_rating = Some (Fin 4)\<rparr>"
  by (simp add: row_eval float_eval decimal_examples)

subsection \<open>Rows with a missing mandatory field\<close>

lemma is_missing_iff: "is_missing v \<longleftrightarrow> v = PNone \<or> v = PStr [] \<or> v = PList []"
  by (cases v) (auto simp: is_missing_def)

lemma validate_row_missing:
  assumes "k \<in> {''poi_id'', ''name'', ''category''}"
    and "r k = None \<or> r k = Some PNone \<or> r k = Some (PStr []) \<or> r k = Some (PList [])"
  shows "validate_row repr index r = Skipped"
proof -
  from assms(2) have "is_missing (row_get r k PNone)"
    by (auto simp: row_get_def is_missing_iff)
  with assms(1) show ?thesis
    by (auto simp: validate_row_def Let_def)
qed

text \<open>
  Claim C7.  For every row in which one of \<open>poi_id\<close>, \<open>name\<close> and \<open>category\<close> is missing
  (the column is absent, or its value is the null marker, the empty string or an empty
  sequence), the row is skipped silently: the turn of the loop leaves the whole state as
  it was, so no record is persisted, no line is written and no counter changes, and the
  loop goes on with the rows after it.
\<close>

theorem missing_field_row_skipped_silently:
  assumes "k \<in> {''poi_id'', ''name'', ''category''}"
    and "r k = None \<or> r k = Some PNone \<or> r k = Some (PStr []) \<or> r k = Some (PList [])"
  shows "process_row update_fields db repr st index r = st \<and>
         process_rows update_fields db repr st index (r # rs)
           = process_rows update_fields db repr st (Suc index) rs"
  using validate_row_missing [of k r repr index] assms by (simp add: process_row_def)

theorem missing_field_row_skipped_silently_witness:
  "process_row True (\<lambda>k d. None) (\<lambda>v. ''?'')
     \<lparr>success_count = 2, error_count = 0, duplicate_count = 0, stdout = [], objects = []\<rparr> 5
     [''poi_id'' \<mapsto> PInt 7, ''name'' \<mapsto> PStr ''Cafe'']
   = \<lparr>success_count = 2, error_count = 0, duplicate_count = 0, stdout = [], objects = []\<rparr> \<and>
   process_rows True (\<lambda>k d. None) (\<lambda>v. ''?'')
     \<lparr>success_count = 2, error_count = 0, duplicate_count = 0, stdout = [], objects = []\<rparr> 5
     [[''poi_id'' \<mapsto> PInt 7, ''name'' \<mapsto> PStr ''Cafe'']]
   = \<lparr>success_count = 2, error_count = 0, duplicate_count = 0, stdout = [], objects = []\<rparr>"
  using missing_field_row_skipped_silently
    [of "''category''" "[''poi_id'' \<mapsto> PInt 7, ''name'' \<mapsto> PStr ''Cafe'']"
      True "\<lambda>k d. None" "\<lambda>v. ''?''"
      "\<lparr>success_count = 2, error_count = 0, duplicate_count = 0, stdout = [], objects = []\<rparr>"
      5 "[]"]
  by simp

subsection \<open>Rows with coordinates that are missing or do not coerce\<close>

lemma pd_isna_error: "pd_isna v = Inl e \<Longrightarrow> e = ValueError"
  by (induction v rule: pd_isna.induct) auto

lemma py_float_error: "py_float v = Inl e \<Longrightarrow> e = ValueError \<or> e = TypeError \<or> e = OverflowError"
  by (cases v) (auto split: if_splits option.splits)

text \<open>
  The inner \<^verbatim>\<open>try\<close> tests both cells for a missing value before it coerces either, and
  coerces the latitude before the longitude.
\<close>

lemma read_coordinates_bad:
  assumes "r ''latitude'' = Some lat" "r ''longitude'' = Some lon"
    and "pd_isna lat = Inr True \<or> pd_isna lon = Inr True \<or>
         py_float lat = Inl ValueError \<or> py_float lat = Inl TypeError \<or>
         (py_float lat \<noteq> Inl OverflowError \<and>
          (py_float lon = Inl ValueError \<or> py_float lon = Inl TypeError))"
  shows "read_coordinates r = Inr Missing \<or> read_coordinates r = Inl ValueError \<or>
         read_coordinates r = Inl TypeError"
proof -
  have a: "pd_isna lat = Inl e \<Longrightarrow> e = ValueError" for e by (rule pd_isna_error)
  have b: "pd_isna lon = Inl e \<Longrightarrow> e = ValueError" for e by (rule pd_isna_error)
  have c: "py_float lat = Inl e \<Longrightarrow> e = ValueError \<or> e = TypeError \<or> e = OverflowError" for e
    by (rule py_float_error)
  show ?thesis
    using assms a b c
    by (auto simp: read_coordinates_def row_item_def split: sum.splits bool.splits)
qed

text \<open>
  Claim C6, as amended.  For every row that passes the presence check and whose
  \<open>poi_id\<close> coerces to an integer, if both coordinate columns are present in the row
  and the latitude or the longitude is a missing value (null or not-a-number), or the
  latitude fails the float coercion with \<open>ValueError\<close> or \<open>TypeError\<close>, or the latitude
  does not raise \<open>OverflowError\<close> and the longitude fails the float coercion with
  \<open>ValueError\<close> or \<open>TypeError\<close>, then the row is skipped with one warning line and
  nothing else changes: neither the success, the error nor the duplicate counter, nor the
  table.
\<close>

theorem bad_coordinates_row_warned:
  assumes "\<not> is_missing (row_get r ''poi_id'' PNone)"
    and "\<not> is_missing (row_get r ''name'' PNone)"
    and "\<not> is_missing (row_get r ''category'' PNone)"
    and "py_int (row_get r ''poi_id'' PNone) = Inr k"
    and "r ''latitude'' = Some lat" and "r ''longitude'' = Some lon"
    and "pd_isna lat = Inr True \<or> pd_isna lon = Inr True \<or>
         py_float lat = Inl ValueError \<or> py_float lat = Inl TypeError \<or>
         (py_float lat \<noteq> Inl OverflowError \<and>
          (py_float lon = Inl ValueError \<or> py_float lon = Inl TypeError))"
  shows "process_row update_fields db repr st index r
           = st\<lparr>stdout := stdout st @ [MissingCoordinates (index + 1)]\<rparr> \<or>
         process_row update_fields db repr st index r
           = st\<lparr>stdout := stdout st @ [InvalidCoordinates (index + 1)]\<rparr>"
  using read_coordinates_bad [OF assms(5-7)] assms(1-4)
  by (auto simp: process_row_def validate_row_def Let_def)

theorem bad_coordinates_row_warned_witness:
  "process_row True (\<lambda>k d. None) (\<lambda>v. ''?'')
     \<lparr>success_count = 0, error_count = 0, duplicate_count = 0, stdout = [], objects = []\<rparr> 0
     [''poi_id'' \<mapsto> PInt 7, ''name'' \<mapsto> PStr ''Cafe'', ''category'' \<mapsto> PStr ''Food'',
      ''latitude'' \<mapsto> PStr ''north'', ''longitude'' \<mapsto> PFloat (Fin 2)]
   = \<lparr>success_count = 0, error_count = 0, duplicate_count = 0, stdout = [InvalidCoordinates 1],
      objects = []\<rparr>"
  using bad_coordinates_row_warned
    [of "[''poi_id'' \<mapsto> PInt 7, ''name'' \<mapsto> PStr ''Cafe'', ''category'' \<mapsto> PStr ''Food'',
          ''latitude'' \<mapsto> PStr ''north'', ''longitude'' \<mapsto> PFloat (Fin 2)]"
      7 "PStr ''north''" "PFloat (Fin 2)" True "\<lambda>k d. None" "\<lambda>v. ''?''"
      "\<lparr>success_count = 0, error_count = 0, duplicate_count = 0, stdout = [], objects = []\<rparr>" 0]
  by (simp add: row_eval float_eval)

text \<open>
  The claim as the specification states it fails in three ways, each counted as an error
  with an error line and no warning.  The identifier is coerced before the coordinates
  are looked at, so a row with a not-a-number latitude and the identifier \<^verbatim>\<open>abc\<close> raises
  \<open>ValueError\<close> outside the inner \<^verbatim>\<open>try\<close>.  An integer latitude too large for a float
  raises \<open>OverflowError\<close>, which the inner handler does not name, before the longitude
  \<^verbatim>\<open>north\<close> is coerced.  A row without the latitude column raises \<open>KeyError\<close>, which the
  inner handler does not name either.
\<close>

theorem bad_coordinates_counted_as_error_counterexample:
  "process_row True (\<lambda>k d. None) (\<lambda>v. ''?'')
     \<lparr>success_count = 0, error_count = 0, duplicate_count = 0, stdout = [], objects = []\<rparr> 0
     [''poi_id'' \<mapsto> PStr ''abc'', ''name'' \<mapsto> PStr ''Cafe'', ''category'' \<mapsto> PStr ''Food'',
      ''latitude'' \<mapsto> PFloat NaN, ''longitude'' \<mapsto> PFloat (Fin 2)]
   = \<lparr>success_count = 0, error_count = 1, duplicate_count = 0, stdout = [RowError 1 ValueError],
      objects = []\<rparr> \<and>
   process_row True (\<lambda>k d. None) (\<lambda>v. ''?'')
     \<lparr>success_count = 0, error_count = 0, duplicate_count = 0, stdout = [], objects = []\<rparr> 0
     [''poi_id'' \<mapsto> PInt 7, ''name'' \<mapsto> PStr ''Cafe'', ''category'' \<mapsto> PStr ''Food'',
      ''latitude'' \<mapsto> PInt (2 ^ 1024), ''longitude'' \<mapsto> PStr ''north'']
   = \<lparr>success_count = 0, error_count = 1, duplicate_count = 0,
      stdout = [RowError 1 OverflowError], objects = []\<rparr> \<and>
   process_row True (\<lambda>k d. None) (\<lambda>v. ''?'')
     \<lparr>success_count = 0, error_count = 0, duplicate_count = 0, stdout = [], objects = []\<rparr> 0
     [''poi_id'' \<mapsto> PInt 7, ''name'' \<mapsto> PStr ''Cafe'', ''category'' \<mapsto> PStr ''Food'',
      ''longitude'' \<mapsto> PFloat (Fin 2)]
   = \<lparr>success_count = 0, error_count = 1, duplicate_count = 0, stdout = [RowError 1 KeyError],
      objects = []\<rparr>"
  by (simp add: row_eval float_eval)

subsection \<open>What a persisted record holds\<close>

















section \<open>Properties of the upsert\<close>






























section \<open>Properties of the XML import\<close>

text \<open>
  Claim C8 asks that, for every XML input whose first two bytes are \<open>0x1F 0x8B\<close>, a
  failure of the gzip decompression for any reason makes the import fall back to the
  original bytes and go on to the decoding step, and is never reported as an error of the
  file.  The code does not meet it: the fallback is \<^verbatim>\<open>except OSError\<close>, which catches a
  bad gzip file (here an unknown compression method, and the import goes on with the
  bytes as they are) but not the \<open>EOFError\<close> of a stream that ends early.  On a file of
  the two magic bytes alone the decompression raises \<open>EOFError\<close>, no decoding step is
  reached, and the file is reported with the line of a file-level error.
\<close>

theorem truncated_gzip_reported_as_file_error:
  "gzip_decompress (\<lambda>data. Inr []) [0x1F, 0x8B, 0, 0, 0, 0, 0, 0, 0, 0] = Inl BadGzipFile \<and>
   import_xml (\<lambda>data. Inr []) (\<lambda>data. ascii ''<a/>'') (\<lambda>text. Inr []) True (\<lambda>k d. None)
     (\<lambda>v. ''?'') (Inr [0x1F, 0x8B, 0, 0, 0, 0, 0, 0, 0, 0]) []
   = ([ProcessingXML 0, ImportComplete ''XML'' 0 0 0], []) \<and>
   gzip_decompress (\<lambda>data. Inr []) [0x1F, 0x8B] = Inl EOFError \<and>
   import_xml (\<lambda>data. Inr []) (\<lambda>data. ascii ''<a/>'') (\<lambda>text. Inr []) True (\<lambda>k d. None)
     (\<lambda>v. ''?'') (Inr [0x1F, 0x8B]) []
   = ([ErrorReadingXML EOFError], [])"
  by (simp add: gzip_decompress_def gunzip_if_gzip_def is_OSError_def import_xml_def
      import_xml_bytes_def process_dataframe_def)

end
